theory Spec2Isabelle
  imports Main "HOL-Library.Word"
begin

section \<open>The HID library as seen by jam\_g19\_colors.py\<close>

text \<open>
  The script drives a keyboard through the HID library pywinusb. The library is not part
  of the repository, so each of its calls is a parameter of the model: a call either
  returns a value or raises, and which of the two happens is a field of the object the
  call is made on. An exception carries its message and, when it has one, its
  \<^verbatim>\<open>winerror\<close> attribute (the script tests \<^verbatim>\<open>hasattr(e, 'winerror')\<close>).
\<close>

type_synonym byte = "8 word"

datatype exn = Exn string "int option"

fun winerror :: "exn \<Rightarrow> int option" where
  "winerror (Exn m w) = w"

text \<open>
  A report object: \<^verbatim>\<open>report.report_id\<close>, the outcome of \<^verbatim>\<open>report.get_raw_data()\<close>,
  the outcome of \<^verbatim>\<open>len(report)\<close> (the declared length) and the outcome of
  \<^verbatim>\<open>report.send(buffer)\<close>, which may depend on the buffer (\<open>None\<close>: it returns).
  A call repeated on the same report ends the same way (\<^verbatim>\<open>set_color\<close> can ask for
  \<^verbatim>\<open>len(target_report)\<close> twice). A report object is taken to be true in a boolean context, so that
  \<^verbatim>\<open>not target_report\<close> holds exactly when \<^verbatim>\<open>target_report\<close> is still \<^verbatim>\<open>None\<close>.
\<close>

record hid_report =
  report_id :: int
  get_raw_data :: "exn + byte list"
  report_len :: "exn + int"
  send :: "byte list \<Rightarrow> exn option"

text \<open>
  A device object. \<open>opened\<close> is the flag \<^verbatim>\<open>device.is_opened()\<close> reads: \<^verbatim>\<open>device.open()\<close>
  sets it when it returns and leaves it alone when it raises, \<^verbatim>\<open>device.close()\<close> clears
  it. \<^verbatim>\<open>is_opened\<close> and \<^verbatim>\<open>close\<close> themselves do not raise.
\<close>

record hid_device =
  vendor_id :: int
  product_id :: int
  product_name :: string
  opened :: bool
  open_result :: "exn option"
  find_feature_reports :: "exn + hid_report list"
  find_output_reports :: "exn + hid_report list"
  find_input_reports :: "exn + hid_report list"

section \<open>What the script does to the outside\<close>

text \<open>Every line the script can print, with the values it interpolates.\<close>

datatype msg =
    MsgDeviceFound string int int
  | MsgInspectHeader
  | MsgFeatureHeader
  | MsgOutputHeader
  | MsgInputHeader
  | MsgReportLine int nat
  | MsgInspectEnd
  | MsgInspectError exn
  | MsgReportNotFound int
  | MsgConsiderInspect
  | MsgRawEmpty int
  | MsgNoRawNoSize
  | MsgRawError exn
  | MsgNoSize
  | MsgCriticalSize exn
  | MsgOffsetsOutOfRange nat nat nat nat
  | MsgSending int int int int
  | MsgHexDump "byte list"
  | MsgColorSent
  | MsgSetColorError exn
  | MsgWinError int
  | MsgSearching
  | MsgKeyboardFound
  | MsgTrying int int int
  | MsgConfigured
  | MsgConfigFailed
  | MsgKeyboardNotFound
  | MsgCheckConnection
  | MsgCheckIds

text \<open>
  The observable events of a run, in order: the calls into the HID library that touch the
  device (each recorded when it is made, whether it returns or raises) and the lines
  printed.
\<close>

datatype event =
    CallOpen
  | CallClose
  | CallFindFeature
  | CallFindOutput
  | CallFindInput
  | CallGetRawData int
  | CallSend int "byte list"
  | Print msg

section \<open>Module constants and globals\<close>

definition LOGITECH_VENDOR_ID :: int where
  "LOGITECH_VENDOR_ID = 0x046d"

definition G19_PRODUCT_ID :: int where
  "G19_PRODUCT_ID = 0xc229"

definition LIGHTING_REPORT_ID :: int where
  "LIGHTING_REPORT_ID = 7"

definition RED_BYTE_INDEX :: nat where
  "RED_BYTE_INDEX = 1"

definition GREEN_BYTE_INDEX :: nat where
  "GREEN_BYTE_INDEX = 2"

definition BLUE_BYTE_INDEX :: nat where
  "BLUE_BYTE_INDEX = 3"

text \<open>
  The module's only mutable global. Functions read it from the globals they are run in;
  none of them assigns it, so none returns new globals. \<open>module_globals\<close> is the state
  the module body leaves behind (\<^verbatim>\<open>verbose = False\<close>).
\<close>

record globals =
  verbose :: bool

definition module_globals :: globals where
  "module_globals = \<lparr>verbose = False\<rparr>"

section \<open>find\_g19\<close>

text \<open>
  The argument is the list \<^verbatim>\<open>hid.find_all_hid_devices()\<close> returned. The loop returns the
  first device whose identifiers match, after printing it; \<open>None\<close> when it runs out.
\<close>

fun find_g19 :: "hid_device list \<Rightarrow> event list \<times> hid_device option" where
  "find_g19 [] = ([], None)"
| "find_g19 (device # all_devices) =
     (if vendor_id device = LOGITECH_VENDOR_ID \<and> product_id device = G19_PRODUCT_ID
      then ([Print (MsgDeviceFound (product_name device) (vendor_id device) (product_id device))],
            Some device)
      else find_g19 all_devices)"

section \<open>The finally blocks\<close>

text \<open>
  \<^verbatim>\<open>if device.is_opened(): device.close()\<close>. In \<^verbatim>\<open>set_color\<close> the test is
  \<^verbatim>\<open>device and device.is_opened()\<close>; a device object is true.
\<close>

definition finally_close :: "hid_device \<Rightarrow> hid_device \<times> event list" where
  "finally_close device =
     (if opened device then (device\<lparr>opened := False\<rparr>, [CallClose]) else (device, []))"

section \<open>inspect\_reports\<close>

text \<open>
  One of the three listing loops: a line per report, until a \<^verbatim>\<open>get_raw_data()\<close> raises.
\<close>

fun list_reports :: "hid_report list \<Rightarrow> event list \<times> exn option" where
  "list_reports [] = ([], None)"
| "list_reports (report # reports) =
     (case get_raw_data report of
        Inl e \<Rightarrow> ([CallGetRawData (report_id report)], Some e)
      | Inr raw \<Rightarrow>
          (let (tr, x) = list_reports reports
           in (CallGetRawData (report_id report)
                 # Print (MsgReportLine (report_id report) (length raw)) # tr, x)))"

text \<open>
  A header line, the enumeration call, then the loop over what it returned. The header is
  printed before the enumeration is called.
\<close>

definition list_kind :: "msg \<Rightarrow> event \<Rightarrow> exn + hid_report list \<Rightarrow> event list \<times> exn option" where
  "list_kind header call found =
     (case found of
        Inl e \<Rightarrow> ([Print header, call], Some e)
      | Inr reports \<Rightarrow>
          (let (tr, x) = list_reports reports in (Print header # call # tr, x)))"

text \<open>The try block after \<^verbatim>\<open>device.open()\<close> has returned (lines 61 to 78).\<close>

definition inspect_opened :: "hid_device \<Rightarrow> event list \<times> exn option" where
  "inspect_opened device =
     (case list_kind MsgFeatureHeader CallFindFeature (find_feature_reports device) of
        (tr1, Some e) \<Rightarrow> (Print MsgInspectHeader # tr1, Some e)
      | (tr1, None) \<Rightarrow>
          (case list_kind MsgOutputHeader CallFindOutput (find_output_reports device) of
             (tr2, Some e) \<Rightarrow> (Print MsgInspectHeader # tr1 @ tr2, Some e)
           | (tr2, None) \<Rightarrow>
               (case list_kind MsgInputHeader CallFindInput (find_input_reports device) of
                  (tr3, Some e) \<Rightarrow> (Print MsgInspectHeader # tr1 @ tr2 @ tr3, Some e)
                | (tr3, None) \<Rightarrow>
                    (Print MsgInspectHeader # tr1 @ tr2 @ tr3 @ [Print MsgInspectEnd], None))))"

text \<open>The whole try block: the device after it, its events, the exception it raised.\<close>

definition inspect_try :: "hid_device \<Rightarrow> hid_device \<times> event list \<times> exn option" where
  "inspect_try device =
     (case open_result device of
        Some e \<Rightarrow> (device, [CallOpen], Some e)
      | None \<Rightarrow>
          (let (tr, x) = inspect_opened device
           in (device\<lparr>opened := True\<rparr>, CallOpen # tr, x)))"

text \<open>try, except (print the error), finally (close). Returns nothing.\<close>

definition inspect_reports :: "hid_device \<Rightarrow> hid_device \<times> event list" where
  "inspect_reports device =
     (let (device1, tr, x) = inspect_try device;
          tr_except = (case x of None \<Rightarrow> [] | Some e \<Rightarrow> [Print (MsgInspectError e)]);
          (device2, tr_finally) = finally_close device1
      in (device2, tr @ tr_except @ tr_finally))"

section \<open>set\_color\<close>

text \<open>
  The search loop of lines 106 to 109: the first report whose identifier is
  \<open>LIGHTING_REPORT_ID\<close>, \<open>None\<close> (the initial \<^verbatim>\<open>target_report\<close>) when there is none.
\<close>

fun find_target :: "hid_report list \<Rightarrow> hid_report option" where
  "find_target [] = None"
| "find_target (report # feature_reports) =
     (if report_id report = LIGHTING_REPORT_ID then Some report
      else find_target feature_reports)"

text \<open>
  \<^verbatim>\<open>buffer[i] = v\<close> on a bytearray: IndexError outside the buffer, ValueError when the
  value is not in \<^verbatim>\<open>range(0, 256)\<close>.
\<close>

definition IndexError :: exn where
  "IndexError = Exn ''bytearray index out of range'' None"

definition ValueError :: exn where
  "ValueError = Exn ''byte must be in range(0, 256)'' None"

definition store_byte :: "byte list \<Rightarrow> nat \<Rightarrow> int \<Rightarrow> exn + byte list" where
  "store_byte buffer i v =
     (if length buffer \<le> i then Inl IndexError
      else if v < 0 \<or> 255 < v then Inl ValueError
      else Inr (buffer[i := word_of_int v]))"

text \<open>
  \<^verbatim>\<open>buffer = bytearray(report_size); buffer[0] = LIGHTING_REPORT_ID\<close>, reached only with
  \<^verbatim>\<open>report_size > 0\<close>, where the assignment cannot raise.
\<close>

definition fresh_buffer :: "int \<Rightarrow> byte list" where
  "fresh_buffer report_size = (replicate (nat report_size) 0)[0 := word_of_int LIGHTING_REPORT_ID]"

text \<open>
  The inner try block (lines 131 to 144). \<open>Inl\<close>: it raised; \<open>Inr None\<close>: it executed
  \<^verbatim>\<open>return False\<close>; \<open>Inr (Some buffer)\<close>: it fell through with a buffer.
\<close>

definition resolve_try :: "hid_report \<Rightarrow> event list \<times> (exn + byte list option)" where
  "resolve_try target_report =
     (case get_raw_data target_report of
        Inl e \<Rightarrow> ([CallGetRawData (report_id target_report)], Inl e)
      | Inr raw_data \<Rightarrow>
          (if raw_data = [] then
             (case report_len target_report of
                Inl e \<Rightarrow> ([CallGetRawData (report_id target_report)], Inl e)
              | Inr report_size \<Rightarrow>
                  (if report_size > 0
                   then ([CallGetRawData (report_id target_report), Print (MsgRawEmpty report_size)],
                         Inr (Some (fresh_buffer report_size)))
                   else ([CallGetRawData (report_id target_report), Print MsgNoRawNoSize],
                         Inr None)))
           else ([CallGetRawData (report_id target_report)], Inr (Some raw_data))))"

text \<open>
  The handler of the inner try (lines 147 to 163), with its own try block: nothing it
  raises escapes.
\<close>

definition resolve_except :: "hid_report \<Rightarrow> exn \<Rightarrow> event list \<times> byte list option" where
  "resolve_except target_report e_get =
     (case report_len target_report of
        Inl e_size \<Rightarrow> ([Print (MsgRawError e_get), Print (MsgCriticalSize e_size)], None)
      | Inr report_size \<Rightarrow>
          (if report_size \<le> 0 then ([Print (MsgRawError e_get), Print MsgNoSize], None)
           else ([Print (MsgRawError e_get)], Some (fresh_buffer report_size))))"

text \<open>Lines 127 to 163 together: \<open>None\<close> when \<^verbatim>\<open>return False\<close> was executed.\<close>

definition resolve_buffer :: "hid_report \<Rightarrow> event list \<times> byte list option" where
  "resolve_buffer target_report =
     (case resolve_try target_report of
        (tr, Inr x) \<Rightarrow> (tr, x)
      | (tr, Inl e_get) \<Rightarrow>
          (let (tr', x) = resolve_except target_report e_get in (tr @ tr', x)))"

text \<open>
  Lines 168 to 192: the bounds test, the three assignments, the verbose dump, the send.
  An exception of an assignment or of \<^verbatim>\<open>send\<close> leaves the block.
\<close>

definition patch_and_send ::
  "globals \<Rightarrow> hid_report \<Rightarrow> byte list \<Rightarrow> int \<Rightarrow> int \<Rightarrow> int \<Rightarrow> event list \<times> (exn + bool)" where
  "patch_and_send gl target_report buffer r g b =
     (if RED_BYTE_INDEX < length buffer \<and> GREEN_BYTE_INDEX < length buffer
         \<and> BLUE_BYTE_INDEX < length buffer
      then
        (case store_byte buffer RED_BYTE_INDEX r of
           Inl e \<Rightarrow> ([], Inl e)
         | Inr buffer1 \<Rightarrow>
         (case store_byte buffer1 GREEN_BYTE_INDEX g of
            Inl e \<Rightarrow> ([], Inl e)
          | Inr buffer2 \<Rightarrow>
          (case store_byte buffer2 BLUE_BYTE_INDEX b of
             Inl e \<Rightarrow> ([], Inl e)
           | Inr buffer3 \<Rightarrow>
               (let tr_verbose =
                      (if verbose gl
                       then [Print (MsgSending r g b LIGHTING_REPORT_ID), Print (MsgHexDump buffer3)]
                       else [])
                in (case send target_report buffer3 of
                      Some e \<Rightarrow>
                        (tr_verbose @ [CallSend (report_id target_report) buffer3], Inl e)
                    | None \<Rightarrow>
                        (tr_verbose @ [CallSend (report_id target_report) buffer3,
                                       Print MsgColorSent], Inr True))))))
      else
        ([Print (MsgOffsetsOutOfRange RED_BYTE_INDEX GREEN_BYTE_INDEX BLUE_BYTE_INDEX
                   (length buffer))], Inr False))"

text \<open>The outer try block after \<^verbatim>\<open>device.open()\<close> has returned (lines 105 to 192).\<close>

definition set_color_opened ::
  "globals \<Rightarrow> hid_device \<Rightarrow> int \<Rightarrow> int \<Rightarrow> int \<Rightarrow> event list \<times> (exn + bool)" where
  "set_color_opened gl device r g b =
     (case find_feature_reports device of
        Inl e \<Rightarrow> ([CallFindFeature], Inl e)
      | Inr feature_reports \<Rightarrow>
          (case find_target feature_reports of
             None \<Rightarrow>
               ([CallFindFeature, Print (MsgReportNotFound LIGHTING_REPORT_ID),
                 Print MsgConsiderInspect], Inr False)
           | Some target_report \<Rightarrow>
               (case resolve_buffer target_report of
                  (tr1, None) \<Rightarrow> (CallFindFeature # tr1, Inr False)
                | (tr1, Some buffer) \<Rightarrow>
                    (let (tr2, res) = patch_and_send gl target_report buffer r g b
                     in (CallFindFeature # tr1 @ tr2, res)))))"

text \<open>The whole outer try block: the device after it, its events, how it ended.\<close>

definition set_color_try ::
  "globals \<Rightarrow> hid_device \<Rightarrow> int \<Rightarrow> int \<Rightarrow> int \<Rightarrow> hid_device \<times> event list \<times> (exn + bool)" where
  "set_color_try gl device r g b =
     (case open_result device of
        Some e \<Rightarrow> (device, [CallOpen], Inl e)
      | None \<Rightarrow>
          (let (tr, res) = set_color_opened gl device r g b
           in (device\<lparr>opened := True\<rparr>, CallOpen # tr, res)))"

text \<open>
  The outer handler (lines 194 to 199): print the error, print its \<^verbatim>\<open>winerror\<close> when
  it has one, \<^verbatim>\<open>return False\<close>.
\<close>

definition set_color_except :: "exn \<Rightarrow> event list" where
  "set_color_except e =
     Print (MsgSetColorError e)
       # (case winerror e of None \<Rightarrow> [] | Some w \<Rightarrow> [Print (MsgWinError w)])"

text \<open>try, except, finally: the device afterwards, the events, the value returned.\<close>

definition set_color ::
  "globals \<Rightarrow> hid_device \<Rightarrow> int \<Rightarrow> int \<Rightarrow> int \<Rightarrow> hid_device \<times> event list \<times> bool" where
  "set_color gl device r g b =
     (let (device1, tr, res) = set_color_try gl device r g b;
          (tr_except, ret) = (case res of Inr v \<Rightarrow> ([], v) | Inl e \<Rightarrow> (set_color_except e, False));
          (device2, tr_finally) = finally_close device1
      in (device2, tr @ tr_except @ tr_finally, ret))"

section \<open>main\<close>

text \<open>
  The namespace \<^verbatim>\<open>parser.parse_args()\<close> returns. The parser accepts \<^verbatim>\<open>--r\<close>,
  \<^verbatim>\<open>--g\<close> and \<^verbatim>\<open>--b\<close> only from \<^verbatim>\<open>range(0, 256)\<close>.
\<close>

record args =
  arg_r :: int
  arg_g :: int
  arg_b :: int
  arg_inspect :: bool

text \<open>
  \<open>main\<close> from the line after \<^verbatim>\<open>parse_args\<close>: the events of the run and the status
  given to \<^verbatim>\<open>sys.exit\<close>.
\<close>

definition main :: "globals \<Rightarrow> args \<Rightarrow> hid_device list \<Rightarrow> event list \<times> int" where
  "main gl a all_devices =
     (case find_g19 all_devices of
        (tr0, Some g19_device) \<Rightarrow>
          (if arg_inspect a then
             (let (d, tr1) = inspect_reports g19_device
              in (Print MsgSearching # tr0 @ Print MsgKeyboardFound # tr1, 0))
           else
             (let (d, tr1, success) = set_color gl g19_device (arg_r a) (arg_g a) (arg_b a);
                  tr = Print MsgSearching # tr0 @ Print MsgKeyboardFound
                         # Print (MsgTrying (arg_r a) (arg_g a) (arg_b a)) # tr1
              in if success then (tr @ [Print MsgConfigured], 0)
                 else (tr @ [Print MsgConfigFailed], 1)))
      | (tr0, None) \<Rightarrow>
          (Print MsgSearching # tr0
             @ [Print MsgKeyboardNotFound, Print MsgCheckConnection, Print MsgCheckIds], 1))"

text \<open>The script run as a program: \<open>main\<close> in the globals the module body set up.\<close>

definition run_script :: "args \<Rightarrow> hid_device list \<Rightarrow> event list \<times> int" where
  "run_script a all_devices = main module_globals a all_devices"

section \<open>Reading a run\<close>

text \<open>The buffers handed to \<^verbatim>\<open>send\<close>, in order, and the number of \<^verbatim>\<open>close\<close> calls.\<close>

fun sent :: "event list \<Rightarrow> byte list list" where
  "sent [] = []"
| "sent (CallSend rid buffer # tr) = buffer # sent tr"
| "sent (ev # tr) = sent tr"

fun closes :: "event list \<Rightarrow> nat" where
  "closes [] = 0"
| "closes (CallClose # tr) = Suc (closes tr)"
| "closes (ev # tr) = closes tr"

text \<open>The two lines the verbose branch of \<^verbatim>\<open>set_color\<close> prints.\<close>

fun is_verbose_output :: "event \<Rightarrow> bool" where
  "is_verbose_output (Print (MsgSending r g b i)) = True"
| "is_verbose_output (Print (MsgHexDump buffer)) = True"
| "is_verbose_output ev = False"

section \<open>Example devices\<close>

text \<open>
  A keyboard with the G19 identifiers whose \<^verbatim>\<open>open\<close> and feature-report enumeration end
  as given, a report 7 whose calls end as given, a 32-byte snapshot, and an exception with
  a \<^verbatim>\<open>winerror\<close>. The concrete runs below use them.
\<close>

definition io_error :: exn where
  "io_error = Exn ''device I/O failed'' (Some 31)"

definition report7 :: "exn + byte list \<Rightarrow> exn + int \<Rightarrow> exn option \<Rightarrow> hid_report" where
  "report7 raw n s = \<lparr>report_id = 7, get_raw_data = raw, report_len = n, send = (\<lambda>buffer. s)\<rparr>"

definition keyboard :: "exn option \<Rightarrow> exn + hid_report list \<Rightarrow> hid_device" where
  "keyboard op fr =
     \<lparr>vendor_id = 0x046d, product_id = 0xc229, product_name = ''G19'', opened = False,
      open_result = op, find_feature_reports = fr, find_output_reports = Inr [],
      find_input_reports = Inr []\<rparr>"

definition snapshot32 :: "byte list" where
  "snapshot32 = [7, 10, 20, 30] @ replicate 28 5"

definition rgb_args :: "int \<Rightarrow> int \<Rightarrow> int \<Rightarrow> bool \<Rightarrow> args" where
  "rgb_args r g b i = \<lparr>arg_r = r, arg_g = g, arg_b = b, arg_inspect = i\<rparr>"

definition other_device :: hid_device where
  "other_device = (keyboard None (Inr []))\<lparr>product_id := 0xc22d\<rparr>"

section \<open>Lemmas about the blocks\<close>

lemma sent_append: "sent (xs @ ys) = sent xs @ sent ys"
  by (induction xs rule: sent.induct) simp_all

lemma closes_append: "closes (xs @ ys) = closes xs + closes ys"
  by (induction xs rule: closes.induct) simp_all

lemma find_g19_None: "snd (find_g19 ds) = None \<longleftrightarrow>
   (\<forall>d \<in> set ds. \<not> (vendor_id d = LOGITECH_VENDOR_ID \<and> product_id d = G19_PRODUCT_ID))"
  by (induction ds) auto

lemma find_g19_Some: "snd (find_g19 ds) = Some d \<Longrightarrow>
   d \<in> set ds \<and> vendor_id d = LOGITECH_VENDOR_ID \<and> product_id d = G19_PRODUCT_ID"
  by (induction ds) (auto split: if_splits)

lemma find_g19_events:
  "ev \<in> set (fst (find_g19 ds)) \<Longrightarrow> \<exists>n v p. ev = Print (MsgDeviceFound n v p)"
  by (induction ds) (auto split: if_splits)

lemma list_reports_events:
  "ev \<in> set (fst (list_reports rs)) \<Longrightarrow>
     (\<exists>i. ev = CallGetRawData i) \<or> (\<exists>i n. ev = Print (MsgReportLine i n))"
  by (induction rs) (auto simp: split_beta split: sum.splits)

lemma closes_list_reports: "closes (fst (list_reports rs)) = 0"
  by (induction rs) (auto simp: split_beta split: sum.splits)

lemma closes_list_kind:
  "c \<noteq> CallClose \<Longrightarrow> closes (fst (list_kind h c f)) = 0"
  by (cases c) (auto simp: list_kind_def split_beta closes_list_reports split: sum.splits)

lemma closes_inspect_opened: "closes (fst (inspect_opened d)) = 0"
  by (auto simp: inspect_opened_def split_beta closes_append closes_list_kind
           split: option.splits)

lemma closes_inspect_try: "closes (fst (snd (inspect_try d))) = 0"
  by (auto simp: inspect_try_def split_beta closes_inspect_opened split: option.splits)

lemma opened_inspect_try:
  "opened (fst (inspect_try d)) = (open_result d = None \<or> opened d)"
  by (auto simp: inspect_try_def split_beta split: option.splits)

lemma inspect_reports_closes:
  "closes (snd (inspect_reports d)) = (if open_result d = None \<or> opened d then 1 else 0)"
  by (simp add: inspect_reports_def split_beta closes_append closes_inspect_try
        finally_close_def opened_inspect_try split: option.splits)

lemma inspect_reports_closed: "\<not> opened (fst (inspect_reports d))"
  by (simp add: inspect_reports_def split_beta finally_close_def)

lemmas byte_index_defs = RED_BYTE_INDEX_def GREEN_BYTE_INDEX_def BLUE_BYTE_INDEX_def

lemma closes_resolve_buffer: "closes (fst (resolve_buffer rp)) = 0"
  by (auto simp: resolve_buffer_def resolve_try_def resolve_except_def split_beta
           split: sum.splits)

lemma sent_resolve_buffer: "sent (fst (resolve_buffer rp)) = []"
  by (auto simp: resolve_buffer_def resolve_try_def resolve_except_def split_beta
           split: sum.splits)

lemma closes_patch_and_send: "closes (fst (patch_and_send gl rp buf r g b)) = 0"
  by (auto simp: patch_and_send_def closes_append Let_def split: sum.splits option.splits)

lemma closes_set_color_opened: "closes (fst (set_color_opened gl d r g b)) = 0"
  by (auto simp: set_color_opened_def split_beta closes_append closes_resolve_buffer
        closes_patch_and_send split: sum.splits option.splits prod.splits)

lemma closes_set_color_try: "closes (fst (snd (set_color_try gl d r g b))) = 0"
  by (auto simp: set_color_try_def split_beta closes_set_color_opened split: option.splits)

lemma opened_set_color_try:
  "opened (fst (set_color_try gl d r g b)) = (open_result d = None \<or> opened d)"
  by (auto simp: set_color_try_def split_beta split: option.splits)

lemma closes_set_color_except: "closes (set_color_except e) = 0"
  by (auto simp: set_color_except_def split: option.splits)

lemma set_color_closes:
  "closes (fst (snd (set_color gl d r g b))) = (if open_result d = None \<or> opened d then 1 else 0)"
  by (simp add: set_color_def split_beta closes_append closes_set_color_try
        closes_set_color_except finally_close_def opened_set_color_try split: sum.splits)

lemma set_color_closed: "\<not> opened (fst (set_color gl d r g b))"
  by (simp add: set_color_def split_beta finally_close_def)







lemma find_target_Some:
  "find_target rs = Some rp \<Longrightarrow> rp \<in> set rs \<and> report_id rp = LIGHTING_REPORT_ID"
  by (induction rs) (auto split: if_splits)

lemma find_target_None:
  "find_target rs = None \<longleftrightarrow> (\<forall>rp \<in> set rs. report_id rp \<noteq> LIGHTING_REPORT_ID)"
  by (induction rs) auto



lemma verbose_find_g19: "filter is_verbose_output (fst (find_g19 ds)) = []"
  by (induction ds) auto

lemma verbose_list_reports: "filter is_verbose_output (fst (list_reports rs)) = []"
  by (induction rs) (auto simp: split_beta split: sum.splits)

lemma verbose_list_kind:
  "\<not> is_verbose_output (Print h) \<Longrightarrow> \<not> is_verbose_output c \<Longrightarrow>
     filter is_verbose_output (fst (list_kind h c f)) = []"
  by (auto simp: list_kind_def split_beta verbose_list_reports split: sum.splits)

lemma verbose_inspect_reports: "filter is_verbose_output (snd (inspect_reports d)) = []"
  by (auto simp: inspect_reports_def inspect_try_def inspect_opened_def finally_close_def
        split_beta verbose_list_kind split: option.splits)

lemma verbose_resolve_buffer: "filter is_verbose_output (fst (resolve_buffer rp)) = []"
  by (auto simp: resolve_buffer_def resolve_try_def resolve_except_def split_beta
           split: sum.splits)

lemma verbose_patch_and_send:
  "\<not> verbose gl \<Longrightarrow> filter is_verbose_output (fst (patch_and_send gl rp buf r g b)) = []"
  by (auto simp: patch_and_send_def Let_def split: sum.splits option.splits)

lemma verbose_set_color:
  "\<not> verbose gl \<Longrightarrow> filter is_verbose_output (fst (snd (set_color gl d r g b))) = []"
  by (auto simp: set_color_def set_color_try_def set_color_opened_def set_color_except_def
        finally_close_def split_beta verbose_resolve_buffer verbose_patch_and_send
        split: option.splits sum.splits prod.splits)

lemma verbose_main:
  "\<not> verbose gl \<Longrightarrow> filter is_verbose_output (fst (main gl a ds)) = []"
  by (auto simp: main_def split_beta Let_def verbose_find_g19 verbose_inspect_reports
        verbose_set_color split: option.splits prod.splits)

lemma verbose_branch_live:
  "filter is_verbose_output
     (fst (snd (set_color \<lparr>verbose = True\<rparr> (keyboard None (Inr [report7 (Inr snapshot32) (Inr 32) None])) 1 2 3)))
   = [Print (MsgSending 1 2 3 7), Print (MsgHexDump (snapshot32[1 := 1, 2 := 2, 3 := 3]))]"
  by (simp add: set_color_def set_color_try_def set_color_opened_def resolve_buffer_def
      resolve_try_def patch_and_send_def store_byte_def finally_close_def keyboard_def report7_def
      snapshot32_def LIGHTING_REPORT_ID_def byte_index_defs)

lemma set_color_try_resolved:
  assumes "open_result device = None"
    and "find_feature_reports device = Inr reports"
    and "find_target reports = Some target"
    and "resolve_buffer target = (tr1, Some buffer)"
    and "patch_and_send gl target buffer r g b = (tr2, res)"
  shows "set_color_try gl device r g b
         = (device\<lparr>opened := True\<rparr>, CallOpen # CallFindFeature # tr1 @ tr2, res)"
  using assms by (simp add: set_color_try_def set_color_opened_def)

lemma set_color_resolved:
  assumes "open_result device = None"
    and "find_feature_reports device = Inr reports"
    and "find_target reports = Some target"
    and "resolve_buffer target = (tr1, Some buffer)"
    and "patch_and_send gl target buffer r g b = (tr2, res)"
  shows "set_color gl device r g b
         = (device\<lparr>opened := False\<rparr>,
            CallOpen # CallFindFeature # tr1 @ tr2
              @ (case res of Inr v \<Rightarrow> [] | Inl e \<Rightarrow> set_color_except e) @ [CallClose],
            (case res of Inr v \<Rightarrow> v | Inl e \<Rightarrow> False))"
  using set_color_try_resolved [OF assms]
  by (simp add: set_color_def finally_close_def split: sum.splits)


lemma set_color_no_target:
  assumes "open_result device = None"
    and "find_feature_reports device = Inr reports"
    and "find_target reports = None"
  shows "set_color gl device r g b
         = (device\<lparr>opened := False\<rparr>,
            [CallOpen, CallFindFeature, Print (MsgReportNotFound 7), Print MsgConsiderInspect,
             CallClose], False)"
    and "snd (snd (set_color_try gl device r g b)) = Inr False"
  using assms
  by (simp_all add: set_color_def set_color_try_def set_color_opened_def finally_close_def
        LIGHTING_REPORT_ID_def)



lemma patch_and_send_sends:
  assumes "3 < length buffer"
    and "0 \<le> r" "r \<le> 255" "0 \<le> g" "g \<le> 255" "0 \<le> b" "b \<le> 255"
  shows "sent (fst (patch_and_send gl target buffer r g b))
           = [buffer[1 := word_of_int r, 2 := word_of_int g, 3 := word_of_int b]]"
    and "snd (patch_and_send gl target buffer r g b)
           = (case send target (buffer[1 := word_of_int r, 2 := word_of_int g, 3 := word_of_int b])
              of None \<Rightarrow> Inr True | Some e \<Rightarrow> Inl e)"
  using assms
  by (auto simp: patch_and_send_def byte_index_defs store_byte_def Let_def sent_append
           split: option.splits)

lemma sent_set_color_except: "sent (set_color_except e) = []"
  by (simp add: set_color_except_def split: option.splits)




lemma searches_resolve_buffer:
  "CallFindOutput \<notin> set (fst (resolve_buffer rp)) \<and> CallFindInput \<notin> set (fst (resolve_buffer rp))"
  by (auto simp: resolve_buffer_def resolve_try_def resolve_except_def split_beta
           split: sum.splits)

lemma searches_patch_and_send:
  "CallFindOutput \<notin> set (fst (patch_and_send gl rp buf r g b))
   \<and> CallFindInput \<notin> set (fst (patch_and_send gl rp buf r g b))"
  by (auto simp: patch_and_send_def Let_def split: sum.splits option.splits)

lemma set_color_searches_feature_only:
  "CallFindOutput \<notin> set (fst (snd (set_color gl d r g b)))
   \<and> CallFindInput \<notin> set (fst (snd (set_color gl d r g b)))"
  using searches_resolve_buffer searches_patch_and_send
  by (auto simp: set_color_def set_color_try_def set_color_opened_def set_color_except_def
        finally_close_def split_beta
        split: option.splits sum.splits prod.splits)

lemma find_g19_no_open: "CallOpen \<notin> set (fst (find_g19 ds))"
  using find_g19_events [of CallOpen ds] by auto

lemma main_not_found:
  assumes "snd (find_g19 devs) = None"
  shows "main gl a devs
         = (Print MsgSearching # fst (find_g19 devs)
              @ [Print MsgKeyboardNotFound, Print MsgCheckConnection, Print MsgCheckIds], 1)"
  using assms by (cases "find_g19 devs") (simp add: main_def)

lemma main_inspect:
  assumes "snd (find_g19 devs) = Some d" and "arg_inspect a"
  shows "main gl a devs
         = (Print MsgSearching # fst (find_g19 devs) @ Print MsgKeyboardFound
              # snd (inspect_reports d), 0)"
  using assms by (cases "find_g19 devs") (simp add: main_def split_beta)

lemma main_set_color:
  assumes "snd (find_g19 devs) = Some d" and "\<not> arg_inspect a"
  shows "snd (main gl a devs)
         = (if snd (snd (set_color gl d (arg_r a) (arg_g a) (arg_b a))) then 0 else 1)"
  using assms by (cases "find_g19 devs") (simp add: main_def split_beta Let_def)

lemma transmission_failure_caught:
  assumes "open_result device = None"
    and "find_feature_reports device = Inr reports"
    and "find_target reports = Some target"
    and "resolve_buffer target = (tr1, Some buffer)"
    and "3 < length buffer"
    and "0 \<le> r \<and> r \<le> 255" and "0 \<le> g \<and> g \<le> 255" and "0 \<le> b \<and> b \<le> 255"
    and "send target (buffer[1 := word_of_int r, 2 := word_of_int g, 3 := word_of_int b]) = Some e"
  shows "snd (snd (set_color gl device r g b)) = False"
    and "sent (fst (snd (set_color gl device r g b)))
           = [buffer[1 := word_of_int r, 2 := word_of_int g, 3 := word_of_int b]]"
    and "Print (MsgSetColorError e) \<in> set (fst (snd (set_color gl device r g b)))"
proof -
  obtain tr2 res2 where pat: "patch_and_send gl target buffer r g b = (tr2, res2)"
    by (cases "patch_and_send gl target buffer r g b")
  from patch_and_send_sends [OF assms(5), of r g b gl target] assms(6-9) pat
  have out: "sent tr2 = [buffer[1 := word_of_int r, 2 := word_of_int g, 3 := word_of_int b]]"
    and bad: "res2 = Inl e"
    by simp_all
  have quiet: "sent tr1 = []"
    using sent_resolve_buffer [of target] assms(4) by simp
  note run = set_color_resolved [OF assms(1-4) pat]
  show "snd (snd (set_color gl device r g b)) = False"
    by (simp add: run bad)
  show "sent (fst (snd (set_color gl device r g b)))
          = [buffer[1 := word_of_int r, 2 := word_of_int g, 3 := word_of_int b]]"
    by (simp add: run bad sent_append out quiet sent_set_color_except)
  show "Print (MsgSetColorError e) \<in> set (fst (snd (set_color gl device r g b)))"
    by (simp add: run bad set_color_except_def)
qed

section \<open>The claims\<close>



text \<open>
  C2. Whatever path \<open>inspect_reports\<close> or \<open>set_color\<close> takes, \<^verbatim>\<open>close\<close> is called
  exactly once when the device is open at the end of the try block, that is when
  \<^verbatim>\<open>open\<close> returned (or the handle was open already), and not at all otherwise; the
  device is closed when the function returns.
\<close>

theorem device_closed_exactly_once:
  "closes (snd (inspect_reports device)) = (if open_result device = None \<or> opened device then 1 else 0)
   \<and> \<not> opened (fst (inspect_reports device))
   \<and> closes (fst (snd (set_color gl device r g b)))
        = (if open_result device = None \<or> opened device then 1 else 0)
   \<and> \<not> opened (fst (set_color gl device r g b))"
  by (simp only: inspect_reports_closes inspect_reports_closed set_color_closes set_color_closed
        simp_thms)

theorem device_closed_exactly_once_witness:
  "closes (snd (inspect_reports (keyboard None (Inl io_error)))) = 1
   \<and> closes (fst (snd (set_color module_globals (keyboard None (Inl io_error)) 1 2 3))) = 1
   \<and> closes (snd (inspect_reports (keyboard (Some io_error) (Inr [])))) = 0
   \<and> closes (fst (snd (set_color module_globals (keyboard (Some io_error) (Inr [])) 1 2 3))) = 0"
  using device_closed_exactly_once [of "keyboard None (Inl io_error)" module_globals 1 2 3]
    device_closed_exactly_once [of "keyboard (Some io_error) (Inr [])" module_globals 1 2 3]
  by (simp add: keyboard_def)



text \<open>
  C4. The status \<open>main\<close> exits with is 0 exactly when \<open>find_g19\<close> found a device and
  either inspection was asked for or \<open>set_color\<close> returned \<open>True\<close>; it is 1 exactly when
  no device was found or \<open>set_color\<close> returned \<open>False\<close>. When no enumerated device has the
  G19 identifiers nothing is found and \<^verbatim>\<open>open\<close> is never called; a device that is found
  is one of the enumerated devices and has the G19 identifiers.
\<close>

theorem exit_status:
  "(snd (main gl a devs) = 0 \<longleftrightarrow>
      (\<exists>d. snd (find_g19 devs) = Some d
           \<and> (arg_inspect a \<or> snd (snd (set_color gl d (arg_r a) (arg_g a) (arg_b a))))))
   \<and> (snd (main gl a devs) = 1 \<longleftrightarrow>
        (snd (find_g19 devs) = None
         \<or> (\<exists>d. snd (find_g19 devs) = Some d \<and> \<not> arg_inspect a
                \<and> \<not> snd (snd (set_color gl d (arg_r a) (arg_g a) (arg_b a))))))
   \<and> ((\<forall>d \<in> set devs. vendor_id d \<noteq> LOGITECH_VENDOR_ID \<or> product_id d \<noteq> G19_PRODUCT_ID)
        \<longrightarrow> snd (find_g19 devs) = None \<and> CallOpen \<notin> set (fst (main gl a devs)))
   \<and> (\<forall>d. snd (find_g19 devs) = Some d
        \<longrightarrow> d \<in> set devs \<and> vendor_id d = LOGITECH_VENDOR_ID \<and> product_id d = G19_PRODUCT_ID)"
proof -
  have status: "(snd (main gl a devs) = 0 \<longleftrightarrow>
      (\<exists>d. snd (find_g19 devs) = Some d
           \<and> (arg_inspect a \<or> snd (snd (set_color gl d (arg_r a) (arg_g a) (arg_b a))))))
   \<and> (snd (main gl a devs) = 1 \<longleftrightarrow>
        (snd (find_g19 devs) = None
         \<or> (\<exists>d. snd (find_g19 devs) = Some d \<and> \<not> arg_inspect a
                \<and> \<not> snd (snd (set_color gl d (arg_r a) (arg_g a) (arg_b a))))))"
  proof (cases "snd (find_g19 devs)")
    case None
    then show ?thesis by (simp add: main_not_found)
  next
    case (Some d)
    show ?thesis
    proof (cases "arg_inspect a")
      case True
      with Some show ?thesis by (simp add: main_inspect)
    next
      case False
      with Some show ?thesis by (simp add: main_set_color)
    qed
  qed
  have nobody: "snd (find_g19 devs) = None \<and> CallOpen \<notin> set (fst (main gl a devs))"
    if "\<forall>d \<in> set devs. vendor_id d \<noteq> LOGITECH_VENDOR_ID \<or> product_id d \<noteq> G19_PRODUCT_ID"
  proof -
    from that have none: "snd (find_g19 devs) = None"
      by (auto simp: find_g19_None)
    then show ?thesis
      by (simp add: main_not_found find_g19_no_open)
  qed
  have found: "d \<in> set devs \<and> vendor_id d = LOGITECH_VENDOR_ID \<and> product_id d = G19_PRODUCT_ID"
    if "snd (find_g19 devs) = Some d" for d
    using that by (rule find_g19_Some)
  from status nobody found show ?thesis by blast
qed

theorem exit_status_witness:
  "snd (main module_globals (rgb_args 255 0 128 False)
          [other_device, keyboard None (Inr [report7 (Inr snapshot32) (Inr 32) None])]) = 0
   \<and> snd (main module_globals (rgb_args 255 0 128 False)
          [other_device, keyboard None (Inr [])]) = 1
   \<and> snd (main module_globals (rgb_args 255 0 128 True)
          [other_device, keyboard None (Inr [])]) = 0
   \<and> snd (main module_globals (rgb_args 255 0 128 False) [other_device]) = 1
   \<and> CallOpen \<notin> set (fst (main module_globals (rgb_args 255 0 128 False) [other_device]))"
proof -
  let ?good = "keyboard None (Inr [report7 (Inr snapshot32) (Inr 32) None])"
  let ?bare = "keyboard None (Inr [])"
  have f1: "snd (find_g19 [other_device, ?good]) = Some ?good"
    and f2: "snd (find_g19 [other_device, ?bare]) = Some ?bare"
    by (simp_all add: other_device_def keyboard_def LOGITECH_VENDOR_ID_def G19_PRODUCT_ID_def)
  have f3: "\<forall>d \<in> set [other_device].
              vendor_id d \<noteq> LOGITECH_VENDOR_ID \<or> product_id d \<noteq> G19_PRODUCT_ID"
    by (simp add: other_device_def keyboard_def G19_PRODUCT_ID_def)
  have s1: "snd (snd (set_color module_globals ?good 255 0 128))"
    by (simp add: set_color_def set_color_try_def set_color_opened_def resolve_buffer_def
        resolve_try_def patch_and_send_def store_byte_def finally_close_def keyboard_def
        report7_def snapshot32_def module_globals_def LIGHTING_REPORT_ID_def byte_index_defs)
  have s2: "\<not> snd (snd (set_color module_globals ?bare 255 0 128))"
    by (simp add: set_color_def set_color_try_def set_color_opened_def finally_close_def
        keyboard_def)
  have a: "arg_r (rgb_args r g b i) = r" "arg_g (rgb_args r g b i) = g"
    "arg_b (rgb_args r g b i) = b" "arg_inspect (rgb_args r g b i) = i" for r g b i
    by (simp_all add: rgb_args_def)
  let ?set = "rgb_args 255 0 128 False"
  let ?insp = "rgb_args 255 0 128 True"
  have x1: "\<exists>d. snd (find_g19 [other_device, ?good]) = Some d
              \<and> (arg_inspect ?set
                   \<or> snd (snd (set_color module_globals d (arg_r ?set) (arg_g ?set) (arg_b ?set))))"
    unfolding a f1 using s1 by blast
  have x2: "snd (find_g19 [other_device, ?bare]) = None
            \<or> (\<exists>d. snd (find_g19 [other_device, ?bare]) = Some d \<and> \<not> arg_inspect ?set
                   \<and> \<not> snd (snd (set_color module_globals d (arg_r ?set) (arg_g ?set)
                                   (arg_b ?set))))"
    unfolding a f2 using s2 by blast
  have x3: "\<exists>d. snd (find_g19 [other_device, ?bare]) = Some d
              \<and> (arg_inspect ?insp
                   \<or> snd (snd (set_color module_globals d (arg_r ?insp) (arg_g ?insp)
                                 (arg_b ?insp))))"
    unfolding a f2 by blast
  note e1 = exit_status [of module_globals ?set "[other_device, ?good]"]
  note e2 = exit_status [of module_globals ?set "[other_device, ?bare]"]
  note e3 = exit_status [of module_globals ?insp "[other_device, ?bare]"]
  note e4 = exit_status [of module_globals ?set "[other_device]"]
  have w1: "snd (main module_globals ?set [other_device, ?good]) = 0"
    using e1 x1 by blast
  have w2: "snd (main module_globals ?set [other_device, ?bare]) = 1"
    using e2 x2 by blast
  have w3: "snd (main module_globals ?insp [other_device, ?bare]) = 0"
    using e3 x3 by blast
  have w4: "snd (main module_globals ?set [other_device]) = 1
            \<and> CallOpen \<notin> set (fst (main module_globals ?set [other_device]))"
    using e4 f3 by blast
  from w1 w2 w3 w4 show ?thesis
    by blast
qed

text \<open>
  C5. The device opened and none of its feature reports has identifier 7. Then
  \<open>set_color\<close> prints the error that names identifier 7 and the hint, closes the device
  and returns \<open>False\<close>; the try block returned \<open>False\<close> rather than raising; \<^verbatim>\<open>send\<close> is
  not called, and neither the output nor the input reports are enumerated.
\<close>

theorem missing_report_returns_false:
  assumes "open_result device = None"
    and "find_feature_reports device = Inr reports"
    and "\<forall>rp \<in> set reports. report_id rp \<noteq> LIGHTING_REPORT_ID"
  shows "set_color gl device r g b
           = (device\<lparr>opened := False\<rparr>,
              [CallOpen, CallFindFeature, Print (MsgReportNotFound 7), Print MsgConsiderInspect,
               CallClose], False)
         \<and> snd (snd (set_color_try gl device r g b)) = Inr False
         \<and> sent (fst (snd (set_color gl device r g b))) = []
         \<and> CallFindOutput \<notin> set (fst (snd (set_color gl device r g b)))
         \<and> CallFindInput \<notin> set (fst (snd (set_color gl device r g b)))"
proof -
  from assms(3) have none: "find_target reports = None"
    by (simp add: find_target_None)
  note run = set_color_no_target [OF assms(1,2) none]
  show ?thesis
    by (simp add: run)
qed

theorem missing_report_returns_false_witness:
  "set_color module_globals (keyboard None (Inr [(report7 (Inr snapshot32) (Inr 32) None)\<lparr>report_id := 3\<rparr>])) 1 2 3
     = ((keyboard None (Inr [(report7 (Inr snapshot32) (Inr 32) None)\<lparr>report_id := 3\<rparr>]))\<lparr>opened := False\<rparr>,
        [CallOpen, CallFindFeature, Print (MsgReportNotFound 7), Print MsgConsiderInspect,
         CallClose], False)"
proof -
  let ?rp = "(report7 (Inr snapshot32) (Inr 32) None)\<lparr>report_id := 3\<rparr>"
  let ?d = "keyboard None (Inr [?rp])"
  have 1: "open_result ?d = None" by (simp add: keyboard_def)
  have 2: "find_feature_reports ?d = Inr [?rp]" by (simp add: keyboard_def)
  have 3: "\<forall>rp \<in> set [?rp]. report_id rp \<noteq> LIGHTING_REPORT_ID"
    by (simp add: LIGHTING_REPORT_ID_def)
  from missing_report_returns_false [OF 1 2 3, of module_globals 1 2 3]
  show ?thesis by simp
qed





text \<open>
  C8. With inspection asked for and a device found, \<open>main\<close> exits with status 0 after
  the run of \<open>inspect_reports\<close>, whatever happens in it: an exception of the try block is
  printed, \<^verbatim>\<open>close\<close> is still called when the device is open, and the device is closed
  afterwards. When the first enumeration raises, the run is the header lines, the call,
  the error line and the close.
\<close>

theorem inspect_mode_exits_zero:
  assumes "snd (find_g19 devs) = Some d" and "arg_inspect a"
  shows "main gl a devs
           = (Print MsgSearching # fst (find_g19 devs) @ Print MsgKeyboardFound
                # snd (inspect_reports d), 0)
         \<and> (\<forall>e. snd (snd (inspect_try d)) = Some e
                \<longrightarrow> Print (MsgInspectError e) \<in> set (snd (inspect_reports d)))
         \<and> closes (snd (inspect_reports d))
             = (if open_result d = None \<or> opened d then 1 else 0)
         \<and> \<not> opened (fst (inspect_reports d))
         \<and> (\<forall>e. open_result d = None \<and> find_feature_reports d = Inl e
                \<longrightarrow> inspect_reports d
                    = (d\<lparr>opened := False\<rparr>,
                       [CallOpen, Print MsgInspectHeader, Print MsgFeatureHeader, CallFindFeature,
                        Print (MsgInspectError e), CallClose]))"
proof -
  have printed: "Print (MsgInspectError e) \<in> set (snd (inspect_reports d))"
    if "snd (snd (inspect_try d)) = Some e" for e
    using that by (simp add: inspect_reports_def split_beta)
  have first: "inspect_reports d
                 = (d\<lparr>opened := False\<rparr>,
                    [CallOpen, Print MsgInspectHeader, Print MsgFeatureHeader, CallFindFeature,
                     Print (MsgInspectError e), CallClose])"
    if "open_result d = None \<and> find_feature_reports d = Inl e" for e
    using that
    by (simp add: inspect_reports_def inspect_try_def inspect_opened_def list_kind_def
        finally_close_def)
  show ?thesis
    using main_inspect [OF assms] printed first inspect_reports_closes [of d]
      inspect_reports_closed [of d]
    by simp
qed

theorem inspect_mode_exits_zero_witness:
  "main module_globals (rgb_args 0 0 0 True) [keyboard None (Inl io_error)]
     = ([Print MsgSearching, Print (MsgDeviceFound ''G19'' 0x046d 0xc229),
         Print MsgKeyboardFound, CallOpen, Print MsgInspectHeader, Print MsgFeatureHeader,
         CallFindFeature, Print (MsgInspectError io_error), CallClose], 0)"
proof -
  let ?d = "keyboard None (Inl io_error)"
  have 1: "find_g19 [?d] = ([Print (MsgDeviceFound ''G19'' 0x046d 0xc229)], Some ?d)"
    by (simp add: keyboard_def LOGITECH_VENDOR_ID_def G19_PRODUCT_ID_def)
  then have 2: "snd (find_g19 [?d]) = Some ?d"
    by simp
  have 3: "arg_inspect (rgb_args 0 0 0 True)"
    by (simp add: rgb_args_def)
  have 4: "open_result ?d = None \<and> find_feature_reports ?d = Inl io_error"
    by (simp add: keyboard_def)
  from inspect_mode_exits_zero [OF 2 3, of module_globals] 4
  have "main module_globals (rgb_args 0 0 0 True) [?d]
          = (Print MsgSearching # fst (find_g19 [?d]) @ Print MsgKeyboardFound
               # snd (inspect_reports ?d), 0)"
    and "inspect_reports ?d
          = (?d\<lparr>opened := False\<rparr>,
             [CallOpen, Print MsgInspectHeader, Print MsgFeatureHeader, CallFindFeature,
              Print (MsgInspectError io_error), CallClose])"
    by blast+
  then show ?thesis
    by (simp only: 1 fst_conv snd_conv append.simps)
qed

text \<open>
  C9. Run through the entry point, the script never prints the two lines of the verbose
  branch: the module sets \<open>verbose\<close> to \<open>False\<close> and nothing between the entry point and
  \<^verbatim>\<open>set_color\<close> changes the globals.
\<close>

theorem hex_dump_never_printed:
  "verbose module_globals = False
   \<and> filter is_verbose_output (fst (run_script a all_devices)) = []"
  by (simp add: run_script_def verbose_main module_globals_def)



end
